theory Spec2Isabelle
  imports Complex_Main "HOL-Library.AList"
begin

section \<open>Python values and exceptions\<close>

text \<open>
  The script \<open>fanSpeed.py\<close> handles values that come out of \<open>json.load\<close> and
  \<open>response.json()\<close>: any JSON value. A JSON object is the dictionary the parser built,
  kept as an association list in insertion order and read with \<open>map_of\<close>. A float is
  kept by its exact value (NaN and the infinities, which are not JSON, are left out).
\<close>

datatype json =
    JNull
  | JBool bool
  | JInt int
  | JFloat rat
  | JStr string
  | JList "json list"
  | JObj "(string \<times> json) list"

text \<open>
  The exceptions the script can meet. \<open>SystemExit\<close> is raised by \<open>sys.exit\<close>; in Python
  it is a \<open>BaseException\<close> and no \<open>Exception\<close>, so \<open>except Exception\<close> lets it pass.
  \<open>RequestException\<close> stands for whatever a call into the \<open>requests\<close> library raises
  instead of returning a response; \<open>HTTPError\<close> is what \<open>raise_for_status\<close> raises.
  The argument of \<open>ValueError\<close> is a tag for the message.
\<close>

datatype exn =
    KeyError string
  | TypeError
  | ValueError string
  | AttributeError
  | IndexError
  | JSONDecodeError
  | OSError
  | HTTPError nat
  | RequestException
  | SystemExit nat

fun is_Exception :: "exn \<Rightarrow> bool" where
  "is_Exception (SystemExit n) = False"
| "is_Exception e = True"

text \<open>\<open>v[k]\<close> for a string key \<open>k\<close>: only a dictionary can be indexed by a string.\<close>

fun py_getitem :: "json \<Rightarrow> string \<Rightarrow> exn + json" where
  "py_getitem (JObj d) k = (case map_of d k of Some v \<Rightarrow> Inr v | None \<Rightarrow> Inl (KeyError k))"
| "py_getitem v k = Inl TypeError"

text \<open>\<open>v.get(k, dflt)\<close>: only a dictionary has the method.\<close>

fun py_get :: "json \<Rightarrow> string \<Rightarrow> json \<Rightarrow> exn + json" where
  "py_get (JObj d) k dflt = Inr (case map_of d k of Some v \<Rightarrow> v | None \<Rightarrow> dflt)"
| "py_get v k dflt = Inl AttributeError"

fun startswith :: "string \<Rightarrow> string \<Rightarrow> bool" where
  "startswith s p = (take (length p) s = p)"

fun str_contains :: "string \<Rightarrow> string \<Rightarrow> bool" where
  "str_contains p [] = (p = [])"
| "str_contains p (c # cs) = (startswith (c # cs) p \<or> str_contains p cs)"

text \<open>
  \<open>k in v\<close> for a string \<open>k\<close>: a key of a dictionary, an element of a list, a substring
  of a string; any other value is not iterable.
\<close>

fun py_contains :: "string \<Rightarrow> json \<Rightarrow> exn + bool" where
  "py_contains k (JObj d) = Inr (map_of d k \<noteq> None)"
| "py_contains k (JList xs) = Inr (JStr k \<in> set xs)"
| "py_contains k (JStr s) = Inr (str_contains k s)"
| "py_contains k v = Inl TypeError"

text \<open>\<open>v == n\<close> for an integer \<open>n\<close>: \<open>True == 1\<close> and \<open>1.0 == 1\<close> hold in Python.\<close>

fun py_eq_int :: "json \<Rightarrow> int \<Rightarrow> bool" where
  "py_eq_int (JInt m) n = (m = n)"
| "py_eq_int (JBool b) n = ((if b then 1 else 0) = n)"
| "py_eq_int (JFloat r) n = (r = of_int n)"
| "py_eq_int v n = False"

fun py_eq_str :: "json \<Rightarrow> string \<Rightarrow> bool" where
  "py_eq_str (JStr s) t = (s = t)"
| "py_eq_str v t = False"

text \<open>\<open>range(v)\<close>: an integer (a bool is one), else \<open>TypeError\<close>; empty when negative.\<close>

fun py_range :: "json \<Rightarrow> exn + nat list" where
  "py_range (JInt n) = Inr [0 ..< nat n]"
| "py_range (JBool b) = Inr [0 ..< (if b then 1 else 0)]"
| "py_range v = Inl TypeError"

text \<open>\<open>for x in v\<close>: the elements of a list, the characters of a string, the keys of a dictionary.\<close>

fun py_iter :: "json \<Rightarrow> exn + json list" where
  "py_iter (JList xs) = Inr xs"
| "py_iter (JStr s) = Inr (map (\<lambda>c. JStr [c]) s)"
| "py_iter (JObj d) = Inr (map (\<lambda>kv. JStr (fst kv)) d)"
| "py_iter v = Inl TypeError"

subsection \<open>Strings\<close>

text \<open>
  A character is a code point below 256 (header values are decoded as Latin-1; a
  command-line argument with a character above 255 is outside the model).
  \<open>str.strip()\<close> removes the characters for which \<open>str.isspace\<close> holds.
\<close>

definition is_space :: "char \<Rightarrow> bool" where
  "is_space c = (let n = (of_char c :: nat) in
     (9 \<le> n \<and> n \<le> 13) \<or> (28 \<le> n \<and> n \<le> 32) \<or> n = 133 \<or> n = 160)"

definition strip :: "string \<Rightarrow> string" where
  "strip s = rev (dropWhile is_space (rev (dropWhile is_space s)))"

text \<open>\<open>s.split(sep)\<close> for a one-character separator: never an empty list.\<close>

fun py_split :: "char \<Rightarrow> string \<Rightarrow> string list" where
  "py_split sep [] = [[]]"
| "py_split sep (c # cs) =
     (if c = sep then [] # py_split sep cs
      else (case py_split sep cs of x # xs \<Rightarrow> (c # x) # xs | [] \<Rightarrow> [[c]]))"

text \<open>
  \<open>s.lower()\<close>: among the code points below 256 the upper-case letters are A to Z
  (65 to 90) and the Latin-1 letters 192 to 222 without the multiplication sign 215; each
  has its lower-case letter 32 places further on.
\<close>

definition lower_char :: "char \<Rightarrow> char" where
  "lower_char c = (let n = (of_char c :: nat) in
     if (65 \<le> n \<and> n \<le> 90) \<or> (192 \<le> n \<and> n \<le> 222 \<and> n \<noteq> 215) then char_of (n + 32) else c)"

definition lower :: "string \<Rightarrow> string" where
  "lower s = map lower_char s"

text \<open>
  \<open>int(s)\<close> for a string: surrounding whitespace is dropped, then an optional sign, then
  decimal digits, where single underscores may stand between digits. Anything else is a
  \<open>ValueError\<close> (\<open>None\<close> here). The interpreter's limit on the number of digits is not
  modelled.

  The whitespace \<open>int\<close> drops is not that of \<open>str.strip()\<close>: it is the ASCII characters
  9 to 13 and 32, and the characters 133 and 160, which \<open>int\<close> replaces by a space before
  it parses. The separators 28 to 31 are not dropped: the character 28 followed by the
  digit 5 is a \<open>ValueError\<close>.
\<close>

definition is_int_space :: "char \<Rightarrow> bool" where
  "is_int_space c = (let n = (of_char c :: nat) in
     (9 \<le> n \<and> n \<le> 13) \<or> n = 32 \<or> n = 133 \<or> n = 160)"

definition int_strip :: "string \<Rightarrow> string" where
  "int_strip s = rev (dropWhile is_int_space (rev (dropWhile is_int_space s)))"

definition is_digit :: "char \<Rightarrow> bool" where
  "is_digit c = (let n = (of_char c :: nat) in 48 \<le> n \<and> n \<le> 57)"

definition digit_val :: "char \<Rightarrow> nat" where
  "digit_val c = of_char c - 48"

fun digits_ok :: "string \<Rightarrow> bool" where
  "digits_ok [] = False"
| "digits_ok [c] = is_digit c"
| "digits_ok (c # d # cs) =
     (is_digit c \<and> (if d = CHR ''_'' then digits_ok cs else digits_ok (d # cs)))"

definition digits_value :: "string \<Rightarrow> nat" where
  "digits_value s = foldl (\<lambda>acc c. 10 * acc + digit_val c) 0 (filter is_digit s)"

definition py_int :: "string \<Rightarrow> int option" where
  "py_int s =
     (case int_strip s of
        [] \<Rightarrow> None
      | c # cs \<Rightarrow>
          if c = CHR ''-'' then (if digits_ok cs then Some (- int (digits_value cs)) else None)
          else if c = CHR ''+'' then (if digits_ok cs then Some (int (digits_value cs)) else None)
          else if digits_ok (c # cs) then Some (int (digits_value (c # cs))) else None)"

section \<open>The world the script runs in\<close>

subsection \<open>HTTP exchanges\<close>

text \<open>
  A request as the script hands it to \<open>requests\<close>: the \<open>Session\<close> object it goes
  through (objects are numbered in the order of their creation), the host it is sent to
  (the configuration's \<open>bmc_host\<close>, formatted into the URL), the path, the headers
  dictionary passed as \<open>headers=\<close>, and the payload (\<open>data=\<close> or \<open>json=\<close>).
  The paths are \<open>/api/randomtag\<close>, \<open>/api/session\<close>, \<open>/api/settings/fans-mode\<close>,
  \<open>/api/settings/fan/{i}\<close> and \<open>/api/status/fan_info\<close>.
\<close>

datatype http_method = GET | POST | PUT

datatype endpoint = RandomTag | SessionLogin | FansMode | Fan nat | FanInfo

text \<open>
  A value of the dictionary passed as \<open>data=\<close>: a value as the script has it, or
  \<open>str(v)\<close> of a value. \<open>str\<close> of a string is the string; of any other value it is
  what Python prints for it, kept here by the value that is printed.
\<close>

datatype form_value = Val json | StrOf json

definition py_str :: "json \<Rightarrow> form_value" where
  "py_str v = (case v of JStr s \<Rightarrow> Val (JStr s) | _ \<Rightarrow> StrOf v)"

datatype payload = NoBody | Form "(string \<times> form_value) list" | Json json

record request =
  via :: nat
  meth :: http_method
  to_host :: json
  path :: endpoint
  hdrs :: "(string \<times> json) list"
  payload :: payload

text \<open>
  What the script reads of a response: \<open>status_code\<close> (through \<open>raise_for_status\<close>),
  the \<open>Set-Cookie\<close> header (\<open>None\<close> when \<open>"Set-Cookie" not in response.headers\<close>) and
  \<open>response.json()\<close> (\<open>None\<close> when it raises).
\<close>

record response =
  status_code :: nat
  set_cookie :: "string option"
  body_json :: "json option"

text \<open>An exchange: the request, and the response (\<open>None\<close> when the call raised).\<close>

type_synonym exchange = "request \<times> response option"

text \<open>\<open>Response.raise_for_status\<close> raises for the status codes from 400 to 599.\<close>

definition raise_for_status :: "response \<Rightarrow> exn + unit" where
  "raise_for_status r =
     (if 400 \<le> status_code r \<and> status_code r < 600 then Inl (HTTPError (status_code r)) else Inr ())"

text \<open>\<open>response.json()\<close>\<close>

definition json_of :: "response \<Rightarrow> exn + json" where
  "json_of r = (case body_json r of None \<Rightarrow> Inl JSONDecodeError | Some j \<Rightarrow> Inr j)"

subsection \<open>Log, environment, state\<close>

text \<open>The lines written with \<open>logging\<close>, by what they report.\<close>

datatype msg =
    ConfigLoadFailed exn
  | RandomTagFailed exn
  | LoginOk
  | LoginFailed exn
  | FanModeSet string
  | FanModeFailed exn
  | FanSpeedSet nat json
  | FanSpeedFailed nat exn
  | FanStatusHeader
  | FanStatusLine json
  | NoFanInfo
  | FanStatusFailed exn
  | SpeedOutOfRange
  | NotANumber
  | ApiHoliday
  | ApiWeekend
  | ApiWorkday
  | ApiFailed exn
  | ListHoliday
  | ListWorkday
  | CheckingHoliday
  | AutoByDate
  | UsingConfigSpeed json
  | NoSpeed
  | HostHeader nat nat json
  | HostAuto json
  | HostAllOk json nat json
  | HostPartial json nat json
  | HostFailed nat exn
  | AllDone
  | ProgramError exn

text \<open>
  The file \<open>fanSpeed.json\<close> as \<open>load_config\<close> finds it: not there; at a path that
  cannot be examined (\<open>stat\<close> fails with an error other than \<open>ENOENT\<close>, \<open>ENOTDIR\<close>,
  \<open>EBADF\<close> and \<open>ELOOP\<close>, as \<open>EACCES\<close> for a symbolic link into a directory without
  search permission); there, but \<open>open\<close> or the read fails; there, but not JSON; or
  holding a JSON value.
\<close>

datatype file_state =
    Missing
  | Inaccessible
  | Unreadable
  | Malformed
  | Content json

text \<open>
  What the script reads from outside: \<open>sys.argv\<close>, the clock (\<open>weekday()\<close> is 0 for
  Monday to 6 for Sunday), the configuration file, the outcome of the GET to the holiday
  service (\<open>None\<close> when the call raises), and the BMCs. A BMC answers a request knowing
  every exchange made so far; \<open>None\<close> means the call raised.
\<close>

record env =
  argv :: "string list"
  weekday :: nat
  month :: nat
  day :: nat
  config_file :: file_state
  holiday_api :: "response option"
  respond :: "exchange list \<Rightarrow> request \<Rightarrow> response option"

text \<open>
  The state the script changes: the exchanges with the BMCs so far, the log, and the
  number of \<open>requests.Session\<close> objects created.
\<close>

record world =
  trace :: "exchange list"
  logs :: "msg list"
  sessions :: nat

definition init_world :: world where
  "init_world = \<lparr>trace = [], logs = [], sessions = 0\<rparr>"

definition logm :: "msg \<Rightarrow> world \<Rightarrow> world" where
  "logm m w = w\<lparr>logs := logs w @ [m]\<rparr>"

text \<open>Sequencing of steps that may raise: an exception ends the sequence.\<close>

definition then_do ::
  "(exn + 'a) \<times> world \<Rightarrow> ('a \<Rightarrow> world \<Rightarrow> (exn + 'b) \<times> world) \<Rightarrow> (exn + 'b) \<times> world" where
  "then_do m f = (case m of (Inl e, w) \<Rightarrow> (Inl e, w) | (Inr v, w) \<Rightarrow> f v w)"

text \<open>\<open>except Exception as e: logging.error(...); raise\<close>\<close>

definition log_and_reraise ::
  "(exn \<Rightarrow> msg) \<Rightarrow> (exn + 'a) \<times> world \<Rightarrow> (exn + 'a) \<times> world" where
  "log_and_reraise m r =
     (case r of
        (Inl e, w) \<Rightarrow> if is_Exception e then (Inl e, logm (m e) w) else (Inl e, w)
      | (Inr v, w) \<Rightarrow> (Inr v, w))"

section \<open>load_config\<close>

text \<open>
  \<open>Path.exists()\<close> calls \<open>stat\<close>: it returns \<open>False\<close> for \<open>ENOENT\<close>, \<open>ENOTDIR\<close>,
  \<open>EBADF\<close> and \<open>ELOOP\<close>, and raises every other \<open>OSError\<close> again.
\<close>

definition path_exists :: "file_state \<Rightarrow> exn + bool" where
  "path_exists f =
     (case f of
        Missing \<Rightarrow> Inr False
      | Inaccessible \<Rightarrow> Inl OSError
      | _ \<Rightarrow> Inr True)"

text \<open>The body of the \<open>try\<close>: \<open>open\<close>, \<open>json.load\<close>, and the test for a list.\<close>

definition load_config_try :: "file_state \<Rightarrow> exn + json list" where
  "load_config_try f =
     (case f of
        Content config_data \<Rightarrow>
          (case config_data of JList xs \<Rightarrow> Inr xs | _ \<Rightarrow> Inr [config_data])
      | Malformed \<Rightarrow> Inl JSONDecodeError
      | _ \<Rightarrow> Inl OSError)"

text \<open>
  \<open>config_path.exists()\<close> is the condition of the \<open>if\<close> and stands before the \<open>try\<close>:
  what it raises leaves \<open>load_config\<close>. What the body of the \<open>try\<close> raises is logged,
  and the function goes on to \<open>return []\<close>.
\<close>

definition load_config :: "env \<Rightarrow> world \<Rightarrow> (exn + json list) \<times> world" where
  "load_config E w =
     (case path_exists (config_file E) of
        Inl e \<Rightarrow> (Inl e, w)
      | Inr True \<Rightarrow>
          (case load_config_try (config_file E) of
             Inr configs \<Rightarrow> (Inr configs, w)
           | Inl e \<Rightarrow>
               if is_Exception e then (Inr [], logm (ConfigLoadFailed e) w) else (Inl e, w))
      | Inr False \<Rightarrow> (Inr [], w))"

section \<open>FanController\<close>

record controller =
  host :: json
  username :: json
  password :: json
  fans_count :: json
  session :: nat
  verify :: bool
  headers :: "(string \<times> json) list"

definition user_agent :: string where
  "user_agent = ''Mozilla/5.0 (Windows NT 10.0; Win64; x64) AppleWebKit/537.36 (KHTML, like Gecko) Chrome/108.0.0.0 Safari/537.36 Edg/117.0.2045.60''"

definition initial_headers :: "(string \<times> json) list" where
  "initial_headers =
     [(''content-type'', JStr ''application/json''), (''User-Agent'', JStr user_agent)]"

text \<open>
  \<open>__init__\<close>: the four keys are read in the source's order, then a new \<open>Session\<close> object
  is created and the headers dictionary is built.
\<close>

definition FanController_init :: "json \<Rightarrow> world \<Rightarrow> (exn + controller) \<times> world" where
  "FanController_init config w =
     (case py_getitem config ''bmc_host'' of Inl e \<Rightarrow> (Inl e, w) | Inr h \<Rightarrow>
      case py_getitem config ''username'' of Inl e \<Rightarrow> (Inl e, w) | Inr u \<Rightarrow>
      case py_getitem config ''password'' of Inl e \<Rightarrow> (Inl e, w) | Inr p \<Rightarrow>
      case py_getitem config ''fans_count'' of Inl e \<Rightarrow> (Inl e, w) | Inr n \<Rightarrow>
        (Inr \<lparr>host = h, username = u, password = p, fans_count = n,
              session = sessions w, verify = False, headers = initial_headers\<rparr>,
         w\<lparr>sessions := Suc (sessions w)\<rparr>))"

text \<open>
  \<open>self.session.get/post/put(url, headers=self.headers, ...)\<close>: the request goes out
  with the controller's session and its headers as they are now, and the exchange is
  recorded whether the call returns or raises.
\<close>

definition send ::
  "env \<Rightarrow> controller \<Rightarrow> http_method \<Rightarrow> endpoint \<Rightarrow> payload \<Rightarrow> world \<Rightarrow> (exn + response) \<times> world" where
  "send E c m ep p w =
     (let rq = \<lparr>via = session c, meth = m, to_host = host c, path = ep,
                hdrs = headers c, payload = p\<rparr>;
          r = respond E (trace w) rq
      in ((case r of None \<Rightarrow> Inl RequestException | Some res \<Rightarrow> Inr res),
          w\<lparr>trace := trace w @ [(rq, r)]\<rparr>))"

definition get_random :: "env \<Rightarrow> controller \<Rightarrow> world \<Rightarrow> (exn + json) \<times> world" where
  "get_random E c w =
     log_and_reraise RandomTagFailed
       (then_do (send E c GET RandomTag NoBody w) (\<lambda>res w1.
          case raise_for_status res of Inl e \<Rightarrow> (Inl e, w1) | Inr _ \<Rightarrow>
          case json_of res of Inl e \<Rightarrow> (Inl e, w1) | Inr j \<Rightarrow>
            (py_getitem j ''random'', w1)))"

subsection \<open>login\<close>

text \<open>
  The loop over the pieces of the \<open>Set-Cookie\<close> header: the first piece that, stripped,
  starts with \<open>SESSION=\<close> or \<open>QSESSIONID=\<close> gives \<open>cookie.split('=')[1]\<close> and ends the
  loop; \<open>None\<close> when no piece does.
\<close>

fun scan_cookies :: "string list \<Rightarrow> exn + string option" where
  "scan_cookies [] = Inr None"
| "scan_cookies (cookie # cookies) =
     (let cookie = strip cookie in
      if startswith cookie ''SESSION='' \<or> startswith cookie ''QSESSIONID='' then
        (case py_split CHR ''='' cookie of
           _ # v # _ \<Rightarrow> Inr (Some v)
         | _ \<Rightarrow> Inl IndexError)
      else scan_cookies cookies)"

text \<open>\<open>if not session_id\<close>: \<open>None\<close> and the empty string are falsy.\<close>

fun falsy_str :: "string option \<Rightarrow> bool" where
  "falsy_str None = True"
| "falsy_str (Some s) = (s = [])"

definition form_content_type :: json where
  "form_content_type = JStr ''application/x-www-form-urlencoded; charset=UTF-8''"

definition cookie_header :: "string \<Rightarrow> json" where
  "cookie_header session_id = JStr (''lang=zh-cn;QSESSIONID='' @ session_id @ ''; refresh_disable=1'')"

text \<open>
  What \<open>login\<close> takes out of the response to the POST, after \<open>raise_for_status\<close>: the
  session id and the CSRF token, or the exception raised on the way.
\<close>

definition extract_session :: "response \<Rightarrow> exn + (string \<times> json)" where
  "extract_session res =
     (case set_cookie res of
        None \<Rightarrow> Inl (ValueError ''no Set-Cookie header'')
      | Some sc \<Rightarrow>
          (case scan_cookies (py_split CHR '';'' sc) of
             Inl e \<Rightarrow> Inl e
           | Inr found \<Rightarrow>
               if falsy_str found then Inl (ValueError ''no session id'')
               else
                 (case json_of res of
                    Inl e \<Rightarrow> Inl e
                  | Inr response_json \<Rightarrow>
                      (case py_contains ''CSRFToken'' response_json of
                         Inl e \<Rightarrow> Inl e
                       | Inr False \<Rightarrow> Inl (ValueError ''no CSRFToken'')
                       | Inr True \<Rightarrow>
                           (case py_getitem response_json ''CSRFToken'' of
                              Inl e \<Rightarrow> Inl e
                            | Inr token \<Rightarrow>
                                (case found of
                                   Some session_id \<Rightarrow> Inr (session_id, token)
                                 | None \<Rightarrow> Inl (ValueError ''no session id'')))))))"

definition set_header :: "string \<Rightarrow> json \<Rightarrow> controller \<Rightarrow> controller" where
  "set_header k v c = c\<lparr>headers := AList.update k v (headers c)\<rparr>"

text \<open>
  \<open>login\<close> changes \<open>self.headers\<close> in place, so the controller is returned with the
  result also when an exception is raised.
\<close>

definition login_try :: "env \<Rightarrow> controller \<Rightarrow> world \<Rightarrow> ((exn + unit) \<times> controller) \<times> world" where
  "login_try E c w =
     (case get_random E c w of
        (Inl e, w1) \<Rightarrow> ((Inl e, c), w1)
      | (Inr random_string, w1) \<Rightarrow>
          (let c1 = set_header ''content-type'' form_content_type c;
               data = Form [(''encrypt_flag'', Val (JInt 0)), (''username'', Val (username c1)),
                            (''password'', Val (password c1)),
                            (''login_tag'', py_str random_string)]
           in case send E c1 POST SessionLogin data w1 of
                (Inl e, w2) \<Rightarrow> ((Inl e, c1), w2)
              | (Inr res, w2) \<Rightarrow>
                  (case raise_for_status res of
                     Inl e \<Rightarrow> ((Inl e, c1), w2)
                   | Inr _ \<Rightarrow>
                       (case extract_session res of
                          Inl e \<Rightarrow> ((Inl e, c1), w2)
                        | Inr (session_id, token) \<Rightarrow>
                            ((Inr (),
                              set_header ''content-type'' (JStr ''application/json'')
                                (set_header ''Cookie'' (cookie_header session_id)
                                  (set_header ''X-Csrftoken'' token c1))),
                             logm LoginOk w2)))))"

definition login :: "env \<Rightarrow> controller \<Rightarrow> world \<Rightarrow> ((exn + unit) \<times> controller) \<times> world" where
  "login E c w =
     (case login_try E c w of
        ((Inl e, c'), w') \<Rightarrow>
          if is_Exception e then ((Inl e, c'), logm (LoginFailed e) w') else ((Inl e, c'), w')
      | r \<Rightarrow> r)"

subsection \<open>set_fan_mode, set_fan_speed, get_fan_status\<close>

definition set_fan_mode :: "env \<Rightarrow> controller \<Rightarrow> string \<Rightarrow> world \<Rightarrow> (exn + unit) \<times> world" where
  "set_fan_mode E c mode w =
     log_and_reraise FanModeFailed
       (then_do (send E c PUT FansMode (Json (JObj [(''control_mode'', JStr mode)])) w) (\<lambda>res w1.
          case raise_for_status res of
            Inl e \<Rightarrow> (Inl e, w1)
          | Inr _ \<Rightarrow> (Inr (), logm (FanModeSet mode) w1)))"

text \<open>
  The body of the \<open>try\<close> in the loop of \<open>set_fan_speed\<close>, for fan \<open>i\<close>: the PUT,
  \<open>raise_for_status\<close>, \<open>response.json()\<close>, and \<open>response_data['duty']\<close> for the log line.
\<close>

definition set_one_fan :: "env \<Rightarrow> controller \<Rightarrow> json \<Rightarrow> nat \<Rightarrow> world \<Rightarrow> (exn + unit) \<times> world" where
  "set_one_fan E c speed i w =
     then_do (send E c PUT (Fan i) (Json (JObj [(''duty'', speed)])) w) (\<lambda>res w1.
       case raise_for_status res of Inl e \<Rightarrow> (Inl e, w1) | Inr _ \<Rightarrow>
       case json_of res of Inl e \<Rightarrow> (Inl e, w1) | Inr response_data \<Rightarrow>
       case py_getitem response_data ''duty'' of Inl e \<Rightarrow> (Inl e, w1) | Inr d \<Rightarrow>
         (Inr (), logm (FanSpeedSet i d) w1))"

text \<open>
  The loop: \<open>success_count\<close> is the accumulator; \<open>except Exception\<close> logs and goes on to
  the next fan.
\<close>

fun fan_loop ::
  "env \<Rightarrow> controller \<Rightarrow> json \<Rightarrow> nat list \<Rightarrow> nat \<Rightarrow> world \<Rightarrow> (exn + nat) \<times> world" where
  "fan_loop E c speed [] success_count w = (Inr success_count, w)"
| "fan_loop E c speed (i # rest) success_count w =
     (case set_one_fan E c speed i w of
        (Inr _, w1) \<Rightarrow> fan_loop E c speed rest (success_count + 1) w1
      | (Inl e, w1) \<Rightarrow>
          if is_Exception e then fan_loop E c speed rest success_count (logm (FanSpeedFailed i e) w1)
          else (Inl e, w1))"

definition set_fan_speed :: "env \<Rightarrow> controller \<Rightarrow> json \<Rightarrow> world \<Rightarrow> (exn + nat) \<times> world" where
  "set_fan_speed E c speed w =
     (case py_range (fans_count c) of
        Inl e \<Rightarrow> (Inl e, w)
      | Inr fans \<Rightarrow> fan_loop E c speed fans 0 w)"

definition get_fan_status :: "env \<Rightarrow> controller \<Rightarrow> world \<Rightarrow> (exn + unit) \<times> world" where
  "get_fan_status E c w =
     log_and_reraise FanStatusFailed
       (then_do (send E c GET FanInfo NoBody w) (\<lambda>res w1.
          case raise_for_status res of Inl e \<Rightarrow> (Inl e, w1) | Inr _ \<Rightarrow>
          case json_of res of Inl e \<Rightarrow> (Inl e, w1) | Inr fan_info \<Rightarrow>
          case py_contains ''fans'' fan_info of
            Inl e \<Rightarrow> (Inl e, w1)
          | Inr False \<Rightarrow> (Inr (), logm NoFanInfo w1)
          | Inr True \<Rightarrow>
              (let w2 = logm FanStatusHeader w1 in
               case py_getitem fan_info ''fans'' of Inl e \<Rightarrow> (Inl e, w2) | Inr fans \<Rightarrow>
               case py_iter fans of Inl e \<Rightarrow> (Inl e, w2) | Inr fs \<Rightarrow>
                 (Inr (), fold (\<lambda>fan. logm (FanStatusLine fan)) fs w2))))"

section \<open>The command line and the calendar\<close>

text \<open>\<open>sys.exit(1)\<close> raises \<open>SystemExit\<close>; \<open>None\<close> is returned when no argument is given.\<close>

definition get_fan_speed_input :: "env \<Rightarrow> world \<Rightarrow> (exn + json option) \<times> world" where
  "get_fan_speed_input E w =
     (case argv E of
        _ # arg # _ \<Rightarrow>
          if lower arg = ''auto'' then (Inr (Some (JStr ''auto'')), w)
          else
            (case py_int arg of
               Some speed \<Rightarrow>
                 if 0 \<le> speed \<and> speed \<le> 100 then (Inr (Some (JInt speed)), w)
                 else (Inl (SystemExit 1), logm SpeedOutOfRange w)
             | None \<Rightarrow> (Inl (SystemExit 1), logm NotANumber w))
      | _ \<Rightarrow> (Inr None, w))"

definition is_weekend :: "env \<Rightarrow> bool" where
  "is_weekend E = (weekday E \<ge> 5)"

definition holidays :: "(nat \<times> nat) list" where
  "holidays = [(1, 1), (1, 2), (1, 3), (4, 4), (4, 5), (5, 1), (5, 2), (5, 3),
               (10, 1), (10, 2), (10, 3), (10, 4), (10, 5)]"

text \<open>The \<open>try\<close> of \<open>is_chinese_holiday\<close>: what the holiday service says.\<close>

definition holiday_try :: "env \<Rightarrow> world \<Rightarrow> (exn + bool) \<times> world" where
  "holiday_try E w =
     (case holiday_api E of
        None \<Rightarrow> (Inl RequestException, w)
      | Some res \<Rightarrow>
          (case raise_for_status res of Inl e \<Rightarrow> (Inl e, w) | Inr _ \<Rightarrow>
           case json_of res of Inl e \<Rightarrow> (Inl e, w) | Inr data \<Rightarrow>
           case py_get data ''status'' JNull of Inl e \<Rightarrow> (Inl e, w) | Inr st \<Rightarrow>
           case py_get data ''type'' JNull of Inl e \<Rightarrow> (Inl e, w) | Inr ty \<Rightarrow>
             if py_eq_int st 1 \<and> (py_eq_int ty 2 \<or> py_eq_int ty 1) then
               (Inr True, logm (if py_eq_int ty 2 then ApiHoliday else ApiWeekend) w)
             else (Inr False, logm ApiWorkday w)))"

definition is_chinese_holiday :: "env \<Rightarrow> world \<Rightarrow> (exn + bool) \<times> world" where
  "is_chinese_holiday E w =
     (case holiday_try E w of
        (Inr b, w1) \<Rightarrow> (Inr b, w1)
      | (Inl e, w1) \<Rightarrow>
          if is_Exception e then
            (let is_holiday = ((month E, day E) \<in> set holidays) in
             (Inr is_holiday, logm (if is_holiday then ListHoliday else ListWorkday) (logm (ApiFailed e) w1)))
          else (Inl e, w1))"

section \<open>main\<close>

text \<open>
  The target when no argument was given (\<open>if target is None\<close>): \<open>'auto'\<close> on a weekend or
  a holiday, else the first configuration's \<open>fan_speed\<close>, else \<open>sys.exit(1)\<close>.
\<close>

definition resolve_target ::
  "env \<Rightarrow> bool \<Rightarrow> json list \<Rightarrow> json option \<Rightarrow> world \<Rightarrow> (exn + json) \<times> world" where
  "resolve_target E is_holiday configs target w =
     (case target of
        Some t \<Rightarrow> (Inr t, w)
      | None \<Rightarrow>
          if is_weekend E \<or> is_holiday then (Inr (JStr ''auto''), logm AutoByDate w)
          else
            (case configs of
               [] \<Rightarrow> (Inl (SystemExit 1), logm NoSpeed w)
             | c0 # _ \<Rightarrow>
                 (case py_contains ''fan_speed'' c0 of
                    Inl e \<Rightarrow> (Inl e, w)
                  | Inr False \<Rightarrow> (Inl (SystemExit 1), logm NoSpeed w)
                  | Inr True \<Rightarrow>
                      (case py_getitem c0 ''fan_speed'' of
                         Inl e \<Rightarrow> (Inl e, w)
                       | Inr v \<Rightarrow> (Inr v, logm (UsingConfigSpeed v) w)))))"

text \<open>
  The speed sent for one configuration: its own \<open>fan_speed\<close> when it has one, else the
  target.
\<close>

definition current_speed :: "json \<Rightarrow> json \<Rightarrow> exn + json" where
  "current_speed target config =
     (case py_contains ''fan_speed'' config of
        Inl e \<Rightarrow> Inl e
      | Inr True \<Rightarrow> py_getitem config ''fan_speed''
      | Inr False \<Rightarrow> Inr target)"

text \<open>The \<open>else\<close> branch of the loop body: manual mode, the speed, the report.\<close>

definition apply_manual :: "env \<Rightarrow> controller \<Rightarrow> json \<Rightarrow> json \<Rightarrow> world \<Rightarrow> (exn + unit) \<times> world" where
  "apply_manual E c target config w =
     (case current_speed target config of
        Inl e \<Rightarrow> (Inl e, w)
      | Inr speed \<Rightarrow>
          then_do (set_fan_mode E c ''manual'' w) (\<lambda>_ w1.
          then_do (set_fan_speed E c speed w1) (\<lambda>success_count w2.
            case py_getitem config ''fans_count'' of Inl e \<Rightarrow> (Inl e, w2) | Inr n \<Rightarrow>
            case py_getitem config ''bmc_host'' of Inl e \<Rightarrow> (Inl e, w2) | Inr h \<Rightarrow>
              (Inr (), logm (if py_eq_int n (int success_count) then HostAllOk h success_count n
                             else HostPartial h success_count n) w2))))"

definition apply_auto :: "env \<Rightarrow> controller \<Rightarrow> json \<Rightarrow> world \<Rightarrow> (exn + unit) \<times> world" where
  "apply_auto E c config w =
     then_do (set_fan_mode E c ''auto'' w) (\<lambda>_ w1.
       case py_getitem config ''bmc_host'' of
         Inl e \<Rightarrow> (Inl e, w1)
       | Inr h \<Rightarrow> (Inr (), logm (HostAuto h) w1))"

text \<open>The body of the inner \<open>try\<close>: a new controller, login, mode and speed, status.\<close>

definition host_steps :: "env \<Rightarrow> json \<Rightarrow> json \<Rightarrow> world \<Rightarrow> (exn + unit) \<times> world" where
  "host_steps E target config w =
     then_do (FanController_init config w) (\<lambda>c0 w1.
       case login E c0 w1 of
         ((Inl e, _), w2) \<Rightarrow> (Inl e, w2)
       | ((Inr _, c), w2) \<Rightarrow>
           then_do (if py_eq_str target ''auto'' then apply_auto E c config w2
                    else apply_manual E c target config w2) (\<lambda>_ w3.
             get_fan_status E c w3))"

text \<open>
  One turn of the loop over \<open>enumerate(configs)\<close>: \<open>config.get('description', ...)\<close> and
  the header line stand before the \<open>try\<close>; \<open>except Exception\<close> logs and continues.
\<close>

definition run_config :: "env \<Rightarrow> json \<Rightarrow> nat \<Rightarrow> nat \<Rightarrow> json \<Rightarrow> world \<Rightarrow> (exn + unit) \<times> world" where
  "run_config E target n i config w =
     (case py_get config ''description'' (JStr ''unnamed server'') of
        Inl e \<Rightarrow> (Inl e, w)
      | Inr description \<Rightarrow>
          (case host_steps E target config (logm (HostHeader (i + 1) n description) w) of
             (Inr _, w1) \<Rightarrow> (Inr (), w1)
           | (Inl e, w1) \<Rightarrow>
               if is_Exception e then (Inr (), logm (HostFailed (i + 1) e) w1) else (Inl e, w1)))"

fun run_configs :: "env \<Rightarrow> json \<Rightarrow> nat \<Rightarrow> nat \<Rightarrow> json list \<Rightarrow> world \<Rightarrow> (exn + unit) \<times> world" where
  "run_configs E target n i [] w = (Inr (), w)"
| "run_configs E target n i (config # rest) w =
     then_do (run_config E target n i config w) (\<lambda>_ w1. run_configs E target n (Suc i) rest w1)"

text \<open>The outer \<open>try\<close> of \<open>main\<close>.\<close>

definition main_try :: "env \<Rightarrow> world \<Rightarrow> (exn + unit) \<times> world" where
  "main_try E w =
     then_do (is_chinese_holiday E (logm CheckingHoliday w)) (\<lambda>is_holiday w1.
     then_do (load_config E w1) (\<lambda>configs w2.
     then_do (get_fan_speed_input E w2) (\<lambda>given w3.
     then_do (resolve_target E is_holiday configs given w3) (\<lambda>target w4.
     then_do (run_configs E target (length configs) 0 configs w4) (\<lambda>_ w5.
       (Inr (), logm AllDone w5))))))"

text \<open>\<open>except Exception as e: logging.error(...); sys.exit(1)\<close>\<close>

definition main :: "env \<Rightarrow> (exn + unit) \<times> world" where
  "main E =
     (case main_try E init_world of
        (Inl e, w) \<Rightarrow>
          if is_Exception e then (Inl (SystemExit 1), logm (ProgramError e) w) else (Inl e, w)
      | (Inr _, w) \<Rightarrow> (Inr (), w))"

text \<open>The exit status of the process: 0 when \<open>main\<close> returns.\<close>

fun exit_status :: "exn + unit \<Rightarrow> nat" where
  "exit_status (Inr _) = 0"
| "exit_status (Inl (SystemExit n)) = n"
| "exit_status (Inl e) = 1"

section \<open>Notions used to state the properties\<close>

text \<open>The request \<open>set_fan_speed\<close> sends for fan \<open>i\<close>.\<close>

definition fan_request :: "controller \<Rightarrow> json \<Rightarrow> nat \<Rightarrow> request" where
  "fan_request c speed i =
     \<lparr>via = session c, meth = PUT, to_host = host c, path = Fan i, hdrs = headers c,
      payload = Json (JObj [(''duty'', speed)])\<rparr>"

text \<open>
  The outcome of a per-fan call on which the body of the \<open>try\<close> runs to its end: the call
  returned, \<open>raise_for_status\<close> did not raise, the body is JSON, and it is a dictionary
  with the key \<open>duty\<close>.
\<close>

definition fan_call_ok :: "response option \<Rightarrow> bool" where
  "fan_call_ok r =
     (case r of
        None \<Rightarrow> False
      | Some res \<Rightarrow>
          \<not> (400 \<le> status_code res \<and> status_code res < 600) \<and>
          (case body_json res of
             Some (JObj d) \<Rightarrow> map_of d ''duty'' \<noteq> None
           | _ \<Rightarrow> False))"

text \<open>
  The POST of \<open>login\<close> for the random tag \<open>random_string\<close>: the content type of the
  headers is the form's, and the form carries \<open>str(random_string)\<close>.
\<close>

definition login_post :: "controller \<Rightarrow> json \<Rightarrow> request" where
  "login_post c random_string =
     \<lparr>via = session c, meth = POST, to_host = host c, path = SessionLogin,
      hdrs = AList.update ''content-type'' form_content_type (headers c),
      payload = Form [(''encrypt_flag'', Val (JInt 0)), (''username'', Val (username c)),
                      (''password'', Val (password c)), (''login_tag'', py_str random_string)]\<rparr>"





section \<open>Concrete environments\<close>

text \<open>A BMC that never answers, a Saturday, no configuration file, no argument.\<close>

definition E_sat :: env where
  "E_sat = \<lparr>argv = [''fanSpeed.py''], weekday = 5, month = 11, day = 7, config_file = Missing,
            holiday_api = None, respond = (\<lambda>_ _. None)\<rparr>"

text \<open>The holiday service answering "workday" (\<open>type\<close> 0).\<close>

definition api_workday :: response where
  "api_workday = \<lparr>status_code = 200, set_cookie = None,
                  body_json = Some (JObj [(''status'', JInt 1), (''type'', JInt 0)])\<rparr>"

text \<open>A controller for a host with two fans, and a reply that reports the duty 50.\<close>

definition c_two :: controller where
  "c_two = \<lparr>host = JStr ''10.0.0.1'', username = JStr ''admin'', password = JStr ''secret'',
            fans_count = JInt 2, session = 0, verify = False, headers = initial_headers\<rparr>"

definition duty_reply :: "nat \<Rightarrow> response" where
  "duty_reply st = \<lparr>status_code = st, set_cookie = None,
                    body_json = Some (JObj [(''duty'', JInt 50)])\<rparr>"

text \<open>A BMC that accepts fan 0 and answers 500 for every other request.\<close>

definition E_second_fails :: env where
  "E_second_fails = E_sat\<lparr>respond := (\<lambda>tr rq. if path rq = Fan 0 then Some (duty_reply 200)
                                                else Some (duty_reply 500))\<rparr>"

text \<open>A BMC that answers every request with status 302 (no \<open>Location\<close> to follow).\<close>

definition E_redirect :: env where
  "E_redirect = E_sat\<lparr>respond := (\<lambda>tr rq. Some (duty_reply 302))\<rparr>"


text \<open>
  Two host configurations, one without and one with a \<open>fan_speed\<close> of its own, and a
  Wednesday that the holiday service calls a workday, with a given content of
  \<open>fanSpeed.json\<close> and a BMC that never answers.
\<close>

definition cfg_no_speed :: json where
  "cfg_no_speed = JObj [(''bmc_host'', JStr ''10.0.0.1''), (''username'', JStr ''admin''),
                        (''password'', JStr ''secret''), (''fans_count'', JInt 2)]"

definition cfg_speed :: "int \<Rightarrow> json" where
  "cfg_speed v = JObj [(''bmc_host'', JStr ''10.0.0.2''), (''username'', JStr ''admin''),
                       (''password'', JStr ''secret''), (''fans_count'', JInt 1),
                       (''fan_speed'', JInt v)]"

definition E_weekday :: "json \<Rightarrow> env" where
  "E_weekday file = \<lparr>argv = [''fanSpeed.py''], weekday = 2, month = 11, day = 4,
                     config_file = Content file, holiday_api = Some api_workday,
                     respond = (\<lambda>_ _. None)\<rparr>"

text \<open>
  A BMC that accepts everything: a random tag, a login answered with a session cookie
  and a CSRF token, the duty reported as 50, and an empty object otherwise; and the
  workday environment with this BMC.
\<close>

definition random_reply :: response where
  "random_reply = \<lparr>status_code = 200, set_cookie = None,
                    body_json = Some (JObj [(''random'', JStr ''8f3a'')])\<rparr>"

definition login_reply :: "string \<Rightarrow> string \<Rightarrow> response" where
  "login_reply sid tok = \<lparr>status_code = 200, set_cookie = Some (''QSESSIONID='' @ sid @ ''; path=/''),
                          body_json = Some (JObj [(''ok'', JInt 0), (''CSRFToken'', JStr tok)])\<rparr>"

definition plain_reply :: response where
  "plain_reply = \<lparr>status_code = 200, set_cookie = None, body_json = Some (JObj [])\<rparr>"

definition bmc_ok :: "exchange list \<Rightarrow> request \<Rightarrow> response option" where
  "bmc_ok tr rq =
     (case path rq of
        RandomTag \<Rightarrow> Some random_reply
      | SessionLogin \<Rightarrow> Some (login_reply ''s1'' ''t1'')
      | Fan i \<Rightarrow> Some (duty_reply 200)
      | _ \<Rightarrow> Some plain_reply)"

definition E_bmc :: "json \<Rightarrow> env" where
  "E_bmc file = (E_weekday file)\<lparr>respond := bmc_ok\<rparr>"

text \<open>
  Two BMCs whose answer to the login has a session cookie with the empty value: one after
  a session cookie with the value \<open>abc\<close>, one as the only session cookie.
\<close>

definition E_two_cookies :: env where
  "E_two_cookies = E_sat\<lparr>respond := (\<lambda>tr rq.
      if path rq = SessionLogin then
        Some \<lparr>status_code = 200, set_cookie = Some ''SESSION=abc; QSESSIONID='',
              body_json = Some (JObj [(''CSRFToken'', JStr ''t1'')])\<rparr>
      else Some random_reply)\<rparr>"

definition E_empty_cookie :: env where
  "E_empty_cookie = E_sat\<lparr>respond := (\<lambda>tr rq.
      if path rq = SessionLogin then
        Some \<lparr>status_code = 200, set_cookie = Some ''lang=zh-cn; QSESSIONID=; path=/'',
              body_json = Some (JObj [(''CSRFToken'', JStr ''t1'')])\<rparr>
      else Some random_reply)\<rparr>"




section \<open>Properties\<close>

subsection \<open>The configuration file\<close>

text \<open>
  Where \<open>exists()\<close> returns, \<open>load_config\<close> returns a list and leaves the exchanges
  and the sessions as they are: a file holding a single JSON object gives the one-element
  list of that object, a file holding an array gives the array unchanged, and a missing
  file, a file that cannot be read and a file that does not parse give the empty list.
\<close>

lemma load_config_returns:
  "config_file E \<noteq> Inaccessible \<Longrightarrow>
     \<exists>configs w1. load_config E w = (Inr configs, w1) \<and> trace w1 = trace w \<and> sessions w1 = sessions w"
  by (auto simp: load_config_def load_config_try_def path_exists_def logm_def
      split: file_state.splits json.splits)

lemma load_config_values:
  "fst (load_config (E\<lparr>config_file := Content (JObj d)\<rparr>) w) = Inr [JObj d]"
  "fst (load_config (E\<lparr>config_file := Content (JList xs)\<rparr>) w) = Inr xs"
  "fst (load_config (E\<lparr>config_file := Missing\<rparr>) w) = Inr []"
  "fst (load_config (E\<lparr>config_file := Unreadable\<rparr>) w) = Inr []"
  "fst (load_config (E\<lparr>config_file := Malformed\<rparr>) w) = Inr []"
  by (simp_all add: load_config_def load_config_try_def path_exists_def)

lemma load_config_raises_iff:
  "(\<exists>e. fst (load_config E w) = Inl e) = (config_file E = Inaccessible)"
  by (auto simp: load_config_def load_config_try_def path_exists_def
      split: file_state.splits json.splits)

text \<open>
  Claim C5 says that \<open>load_config\<close> never raises. The code does not keep to it: with
  \<open>fanSpeed.json\<close> at a path on which \<open>stat\<close> fails with \<open>EACCES\<close>, the exception of
  \<open>config_path.exists()\<close>, which stands outside the \<open>try\<close>, leaves \<open>load_config\<close>,
  nothing is logged by it, and \<open>main\<close> ends the process with status 1.
\<close>

theorem C5_load_config_raises:
  "load_config (E_sat\<lparr>config_file := Inaccessible\<rparr>) init_world = (Inl OSError, init_world) \<and>
   fst (main (E_sat\<lparr>config_file := Inaccessible\<rparr>)) = Inl (SystemExit 1)"
  by (simp add: load_config_def path_exists_def E_sat_def main_def main_try_def then_do_def
      is_chinese_holiday_def holiday_try_def Let_def)

subsection \<open>Weekend or holiday\<close>

lemma holiday_try_not_exit:
  "holiday_try E w = (Inl e, w1) \<Longrightarrow> is_Exception e"
  by (auto simp: holiday_try_def raise_for_status_def json_of_def
      split: option.splits sum.splits if_splits json.splits elim!: py_get.elims)

lemma is_chinese_holiday_returns:
  "\<exists>h w1. is_chinese_holiday E w = (Inr h, w1) \<and> trace w1 = trace w \<and> sessions w1 = sessions w"
proof (cases "holiday_try E w")
  case (Pair r w1)
  have tr: "trace w1 = trace w \<and> sessions w1 = sessions w"
    using Pair
    by (auto simp: holiday_try_def logm_def split: option.splits sum.splits if_splits)
  show ?thesis
  proof (cases r)
    case (Inl e)
    with Pair have "is_Exception e" by (auto dest: holiday_try_not_exit)
    with Pair Inl tr show ?thesis by (simp add: is_chinese_holiday_def Let_def logm_def)
  next
    case (Inr b)
    with Pair tr show ?thesis by (simp add: is_chinese_holiday_def)
  qed
qed

text \<open>
  Claim C6. On a Saturday or a Sunday (\<open>weekday()\<close> 5 or 6) the decision
  \<open>is_weekend() or is_holiday\<close> of \<open>main\<close> is true and the target resolved without an
  argument is \<open>'auto'\<close>, whatever the outcome \<open>r\<close> of the call to the holiday service: an
  exception, an error status, or any content. The lookup itself always returns.
\<close>

theorem C6_weekend_decides:
  assumes "weekday E = 5 \<or> weekday E = 6"
  shows "\<exists>is_holiday w1.
           is_chinese_holiday (E\<lparr>holiday_api := r\<rparr>) w = (Inr is_holiday, w1) \<and>
           (is_weekend (E\<lparr>holiday_api := r\<rparr>) \<or> is_holiday) \<and>
           fst (resolve_target (E\<lparr>holiday_api := r\<rparr>) is_holiday configs None w1) = Inr (JStr ''auto'')"
proof -
  obtain h w1 where "is_chinese_holiday (E\<lparr>holiday_api := r\<rparr>) w = (Inr h, w1)"
    using is_chinese_holiday_returns by blast
  moreover have "is_weekend (E\<lparr>holiday_api := r\<rparr>)"
    using assms by (auto simp: is_weekend_def)
  ultimately show ?thesis by (auto simp: resolve_target_def)
qed

theorem C6_weekend_decides_witness:
  "\<exists>is_holiday w1.
     is_chinese_holiday (E_sat\<lparr>holiday_api := Some api_workday\<rparr>) init_world = (Inr is_holiday, w1) \<and>
     (is_weekend (E_sat\<lparr>holiday_api := Some api_workday\<rparr>) \<or> is_holiday) \<and>
     fst (resolve_target (E_sat\<lparr>holiday_api := Some api_workday\<rparr>) is_holiday [] None w1)
       = Inr (JStr ''auto'')"
proof -
  have "weekday E_sat = 5 \<or> weekday E_sat = 6" by (simp add: E_sat_def)
  from C6_weekend_decides [OF this] show ?thesis by blast
qed

subsection \<open>set_fan_speed\<close>

lemma trace_logm [simp]: "trace (logm m w) = trace w"
  by (simp add: logm_def)

lemma sessions_logm [simp]: "sessions (logm m w) = sessions w"
  by (simp add: logm_def)

lemma set_one_fan_trace:
  "trace (snd (set_one_fan E c speed i w)) =
     trace w @ [(fan_request c speed i, respond E (trace w) (fan_request c speed i))]"
  by (simp add: set_one_fan_def then_do_def send_def fan_request_def Let_def logm_def
      split: option.splits sum.splits)

lemma set_one_fan_ok:
  "(fst (set_one_fan E c speed i w) = Inr ()) =
     fan_call_ok (respond E (trace w) (fan_request c speed i))"
  by (auto simp: set_one_fan_def then_do_def send_def fan_request_def Let_def fan_call_ok_def
      raise_for_status_def json_of_def
      split: option.splits sum.splits json.splits elim!: py_getitem.elims)

lemma set_one_fan_exn:
  "fst (set_one_fan E c speed i w) = Inl e \<Longrightarrow> is_Exception e"
  by (auto simp: set_one_fan_def then_do_def send_def Let_def
      raise_for_status_def json_of_def
      split: option.splits sum.splits json.splits if_splits elim!: py_getitem.elims)

text \<open>
  The loop, from any count \<open>k\<close> and any state: it returns, it adds one exchange per fan
  in order, each reply is what the BMC answers to that request after the exchanges before
  it, and it adds to \<open>k\<close> the number of calls that succeeded.
\<close>

lemma fan_loop_spec:
  "\<exists>new w'. fan_loop E c speed fans k w =
       (Inr (k + length (filter (\<lambda>x. fan_call_ok (snd x)) new)), w') \<and>
     trace w' = trace w @ new \<and>
     map fst new = map (fan_request c speed) fans \<and>
     (\<forall>j < length new. snd (new ! j) = respond E (trace w @ take j new) (fst (new ! j)))"
proof (induction fans arbitrary: k w)
  case Nil
  show ?case by simp
next
  case (Cons i rest)
  obtain r w1 where s: "set_one_fan E c speed i w = (r, w1)" by (cases "set_one_fan E c speed i w")
  let ?x = "(fan_request c speed i, respond E (trace w) (fan_request c speed i))"
  have tr: "trace w1 = trace w @ [?x]"
    using set_one_fan_trace [of E c speed i w] s by simp
  have ok: "(r = Inr ()) = fan_call_ok (snd ?x)"
    using set_one_fan_ok [of E c speed i w] s by simp
  have tie: "\<forall>j < length (?x # new). snd ((?x # new) ! j) =
               respond E (trace w @ take j (?x # new)) (fst ((?x # new) ! j))"
    if "\<forall>j < length new. snd (new ! j) = respond E (trace w1 @ take j new) (fst (new ! j))"
    for new
  proof (intro allI impI)
    fix j assume "j < length (?x # new)"
    then show "snd ((?x # new) ! j) = respond E (trace w @ take j (?x # new)) (fst ((?x # new) ! j))"
      using that tr by (cases j) simp_all
  qed
  show ?case
  proof (cases r)
    case (Inr u)
    from Cons.IH [of "k + 1" w1] obtain new w' where
      h: "fan_loop E c speed rest (k + 1) w1 =
            (Inr (k + 1 + length (filter (\<lambda>x. fan_call_ok (snd x)) new)), w')"
         "trace w' = trace w1 @ new" "map fst new = map (fan_request c speed) rest"
         "\<forall>j < length new. snd (new ! j) = respond E (trace w1 @ take j new) (fst (new ! j))"
      by blast
    have "fan_call_ok (snd ?x)" using ok Inr by simp
    then show ?thesis
      using s Inr h(1-3) tr tie [OF h(4)]
      by (intro exI [of _ "?x # new"] exI [of _ w']) simp
  next
    case (Inl e)
    then have ex: "is_Exception e" using set_one_fan_exn [of E c speed i w e] s by simp
    from Cons.IH [of k "logm (FanSpeedFailed i e) w1"] obtain new w' where
      h: "fan_loop E c speed rest k (logm (FanSpeedFailed i e) w1) =
            (Inr (k + length (filter (\<lambda>x. fan_call_ok (snd x)) new)), w')"
         "trace w' = trace (logm (FanSpeedFailed i e) w1) @ new"
         "map fst new = map (fan_request c speed) rest"
         "\<forall>j < length new. snd (new ! j) =
             respond E (trace (logm (FanSpeedFailed i e) w1) @ take j new) (fst (new ! j))"
      by blast
    have "\<not> fan_call_ok (snd ?x)" using ok Inl by simp
    moreover have "\<forall>j < length new. snd (new ! j) = respond E (trace w1 @ take j new) (fst (new ! j))"
      using h(4) by simp
    ultimately show ?thesis
      using s Inl ex h(1-3) tr tie
      by (intro exI [of _ "?x # new"] exI [of _ w']) simp
  qed
qed

text \<open>
  Claim C1. For a controller whose \<open>fans_count\<close> is an integer \<open>n \<ge> 0\<close>,
  \<open>set_fan_speed\<close> returns normally (no per-fan failure reaches the caller), the
  exchanges it adds are exactly the \<open>n\<close> PUT requests to \<open>/api/settings/fan/0\<close> ...
  \<open>/api/settings/fan/(n-1)\<close>, in this order, each recorded with the reply the BMC gives
  to it after all the exchanges before it, and the count it returns is the number of those
  calls that succeeded, which is at most \<open>n\<close>.
\<close>

theorem C1_set_fan_speed_counts:
  assumes "fans_count c = JInt n" and "0 \<le> n"
  shows "\<exists>new w'.
           set_fan_speed E c speed w =
             (Inr (length (filter (\<lambda>x. fan_call_ok (snd x)) new)), w') \<and>
           trace w' = trace w @ new \<and>
           map fst new = map (fan_request c speed) [0 ..< nat n] \<and>
           (\<forall>j < length new. snd (new ! j) = respond E (trace w @ take j new) (fst (new ! j))) \<and>
           length new = nat n \<and>
           length (filter (\<lambda>x. fan_call_ok (snd x)) new) \<le> nat n"
proof -
  from fan_loop_spec [of E c speed "[0 ..< nat n]" 0 w] obtain new w' where
    h: "fan_loop E c speed [0 ..< nat n] 0 w =
          (Inr (0 + length (filter (\<lambda>x. fan_call_ok (snd x)) new)), w')"
       "trace w' = trace w @ new" "map fst new = map (fan_request c speed) [0 ..< nat n]"
       "\<forall>j < length new. snd (new ! j) = respond E (trace w @ take j new) (fst (new ! j))"
    by blast
  from h(3) have len: "length new = nat n"
    by (metis length_map length_upt diff_zero)
  have "length (filter (\<lambda>x. fan_call_ok (snd x)) new) \<le> length new" by simp
  with h len show ?thesis
    using assms by (auto simp: set_fan_speed_def)
qed

text \<open>
  At a BMC that accepts fan 0 and answers 500 for fan 1, the theorem gives the two
  exchanges and the count 1: the failure of fan 1 is absorbed.
\<close>

theorem C1_set_fan_speed_counts_witness:
  "fst (set_fan_speed E_second_fails c_two (JInt 50) init_world) = Inr 1 \<and>
   trace (snd (set_fan_speed E_second_fails c_two (JInt 50) init_world)) =
     [(fan_request c_two (JInt 50) 0, Some (duty_reply 200)),
      (fan_request c_two (JInt 50) 1, Some (duty_reply 500))]"
proof -
  have a: "fans_count c_two = JInt 2" by (simp add: c_two_def)
  have b: "(0::int) \<le> 2" by simp
  from C1_set_fan_speed_counts [OF a b, of E_second_fails "JInt 50" init_world] obtain new w' where
    h: "set_fan_speed E_second_fails c_two (JInt 50) init_world =
          (Inr (length (filter (\<lambda>x. fan_call_ok (snd x)) new)), w')"
       "trace w' = trace init_world @ new"
       "map fst new = map (fan_request c_two (JInt 50)) [0 ..< nat 2]"
       "\<forall>j < length new. snd (new ! j) =
           respond E_second_fails (trace init_world @ take j new) (fst (new ! j))"
       "length new = nat 2"
    by blast
  from h(5) obtain x y where xy: "new = [x, y]"
    by (cases new; cases "tl new"; cases "tl (tl new)") auto
  have f: "fst x = fan_request c_two (JInt 50) 0" "fst y = fan_request c_two (JInt 50) 1"
    using h(3) xy by (simp_all add: upt_rec numeral_2_eq_2)
  have "snd x = Some (duty_reply 200)"
    using h(4) [rule_format, of 0] xy f by (simp add: E_second_fails_def fan_request_def)
  moreover have "snd y = Some (duty_reply 500)"
    using h(4) [rule_format, of 1] xy f by (simp add: E_second_fails_def fan_request_def)
  ultimately have new: "new = [(fan_request c_two (JInt 50) 0, Some (duty_reply 200)),
      (fan_request c_two (JInt 50) 1, Some (duty_reply 500))]"
    using xy f by (simp add: prod_eq_iff)
  show ?thesis
    using h(1,2) new by (simp add: fan_call_ok_def duty_reply_def init_world_def)
qed

text \<open>
  Claim C9, as the code has it. One turn of the loop adds one to \<open>success_count\<close> exactly
  when the PUT returned a response whose status is not in 400..599 (the statuses for which
  \<open>raise_for_status\<close> raises) and whose body is a JSON dictionary with the key \<open>duty\<close>;
  in every other case, a 2xx response without such a body included, the count stays.
\<close>

theorem C9_counted_iff:
  "fst (fan_loop E c speed [i] k w) =
     Inr (case respond E (trace w) (fan_request c speed i) of
            None \<Rightarrow> k
          | Some res \<Rightarrow>
              if \<not> (400 \<le> status_code res \<and> status_code res < 600) \<and>
                 (\<exists>d. body_json res = Some (JObj d) \<and> map_of d ''duty'' \<noteq> None)
              then k + 1 else k)"
proof -
  obtain r w1 where s: "set_one_fan E c speed i w = (r, w1)" by (cases "set_one_fan E c speed i w")
  have ok: "(r = Inr ()) = fan_call_ok (respond E (trace w) (fan_request c speed i))"
    using set_one_fan_ok [of E c speed i w] s by simp
  have ex: "\<And>e. r = Inl e \<Longrightarrow> is_Exception e"
    using set_one_fan_exn [of E c speed i w] s by simp
  show ?thesis
  proof (cases r)
    case (Inr u)
    then have "fan_call_ok (respond E (trace w) (fan_request c speed i))" using ok by simp
    then show ?thesis using s Inr
      by (auto simp: fan_call_ok_def split: option.splits json.splits)
  next
    case (Inl e)
    then have "\<not> fan_call_ok (respond E (trace w) (fan_request c speed i))" using ok by simp
    then show ?thesis using s Inl ex [OF Inl]
      by (auto simp: fan_call_ok_def split: option.splits json.splits)
  qed
qed

text \<open>
  Claim C9 as stated fails: a response with status 302, which is not a 2xx status, and
  the body \<open>{"duty": 50}\<close> is counted as a success.
\<close>

theorem C9_redirect_counterexample:
  "\<not> (200 \<le> status_code (duty_reply 302) \<and> status_code (duty_reply 302) < 300) \<and>
   respond E_redirect [] (fan_request c_two (JInt 50) 0) = Some (duty_reply 302) \<and>
   fst (fan_loop E_redirect c_two (JInt 50) [0] 0 init_world) = Inr 1"
  by (simp add: c_two_def E_redirect_def E_sat_def init_world_def
      set_one_fan_def then_do_def send_def Let_def raise_for_status_def json_of_def
      duty_reply_def logm_def)

subsection \<open>The start of main\<close>

lemma load_config_fst:
  "fst (load_config E w) = fst (load_config E w')"
  by (auto simp: load_config_def load_config_try_def path_exists_def
      split: file_state.splits json.splits)

text \<open>
  The start of \<open>main\<close>: the holiday lookup and \<open>load_config\<close> contact no BMC and create
  no session; when \<open>load_config\<close> raises, \<open>main\<close> ends with status 1.
\<close>

lemma main_try_start:
  "\<exists>h w1. is_chinese_holiday E (logm CheckingHoliday init_world) = (Inr h, w1) \<and>
     trace w1 = [] \<and> sessions w1 = 0 \<and>
     main_try E init_world =
       then_do (load_config E w1) (\<lambda>configs w2.
       then_do (get_fan_speed_input E w2) (\<lambda>given w3.
       then_do (resolve_target E h configs given w3) (\<lambda>target w4.
       then_do (run_configs E target (length configs) 0 configs w4) (\<lambda>_ w5.
         (Inr (), logm AllDone w5)))))"
proof -
  obtain h w1 where a: "is_chinese_holiday E (logm CheckingHoliday init_world) = (Inr h, w1)"
      "trace w1 = trace (logm CheckingHoliday init_world)"
      "sessions w1 = sessions (logm CheckingHoliday init_world)"
    using is_chinese_holiday_returns by blast
  then show ?thesis by (simp add: main_try_def then_do_def init_world_def)
qed


lemma main_try_loaded:
  assumes "config_file E \<noteq> Inaccessible"
  shows "\<exists>h configs w2. is_chinese_holiday E (logm CheckingHoliday init_world) = (Inr h, snd (is_chinese_holiday E (logm CheckingHoliday init_world))) \<and>
     fst (load_config E init_world) = Inr configs \<and>
     trace w2 = [] \<and> sessions w2 = 0 \<and>
     main_try E init_world =
       then_do (get_fan_speed_input E w2) (\<lambda>given w3.
       then_do (resolve_target E h configs given w3) (\<lambda>target w4.
       then_do (run_configs E target (length configs) 0 configs w4) (\<lambda>_ w5.
         (Inr (), logm AllDone w5))))"
proof -
  obtain h w1 where a: "is_chinese_holiday E (logm CheckingHoliday init_world) = (Inr h, w1)"
     "trace w1 = []" "sessions w1 = 0"
     "main_try E init_world =
       then_do (load_config E w1) (\<lambda>configs w2.
       then_do (get_fan_speed_input E w2) (\<lambda>given w3.
       then_do (resolve_target E h configs given w3) (\<lambda>target w4.
       then_do (run_configs E target (length configs) 0 configs w4) (\<lambda>_ w5.
         (Inr (), logm AllDone w5)))))"
    using main_try_start [of E] by blast
  obtain configs w2 where b: "load_config E w1 = (Inr configs, w2)" "trace w2 = trace w1"
      "sessions w2 = sessions w1"
    using load_config_returns [OF assms] by blast
  have "fst (load_config E init_world) = fst (load_config E w1)" by (rule load_config_fst)
  then have c: "fst (load_config E init_world) = Inr configs" using b by simp
  show ?thesis
    using a b c by (intro exI [of _ h] exI [of _ configs] exI [of _ w2]) (simp add: then_do_def)
qed


subsection \<open>The command-line argument\<close>



lemma py_int_sep: "py_int [CHR 0x1C, CHR ''5''] = None \<and> py_int [CHR 0xA0, CHR ''5''] = Some 5"
  by (simp add: py_int_def int_strip_def is_int_space_def is_digit_def digits_value_def digit_val_def)







subsection \<open>The target without an argument\<close>

lemma resolve_target_first_entry:
  assumes "weekday E < 5"
  shows "resolve_target E False [] None w = (Inl (SystemExit 1), logm NoSpeed w)"
    and "map_of d ''fan_speed'' = None \<Longrightarrow>
         resolve_target E False (JObj d # rest) None w = (Inl (SystemExit 1), logm NoSpeed w)"
    and "map_of d ''fan_speed'' = Some v \<Longrightarrow>
         resolve_target E False (JObj d # rest) None w = (Inr v, logm (UsingConfigSpeed v) w)"
  using assms by (simp_all add: resolve_target_def is_weekend_def)

text \<open>
  Claim C4. No argument is given, the weekday is Monday to Friday, the holiday lookup
  says "no holiday", and \<open>load_config\<close> returns \<open>configs\<close>. If the list is empty or its
  first entry has no key \<open>fan_speed\<close> (whatever the later entries hold), \<open>main\<close> ends
  with \<open>SystemExit(1)\<close>, and no exchange with a BMC was made and no controller was
  created. If the first entry has \<open>fan_speed\<close> \<open>v\<close>, \<open>main\<close> runs the loop over the
  configurations with the target \<open>v\<close>, from a state without exchanges and sessions.
\<close>

theorem C4_first_entry_decides:
  assumes "argv E = [] \<or> (\<exists>prog. argv E = [prog])"
    and "weekday E < 5"
    and "fst (is_chinese_holiday E (logm CheckingHoliday init_world)) = Inr False"
    and "fst (load_config E init_world) = Inr configs"
  shows "(configs = [] \<or> (\<exists>d rest. configs = JObj d # rest \<and> map_of d ''fan_speed'' = None) \<longrightarrow>
            fst (main E) = Inl (SystemExit 1) \<and> exit_status (fst (main E)) = 1 \<and>
            trace (snd (main E)) = [] \<and> sessions (snd (main E)) = 0) \<and>
         (\<forall>d rest v. configs = JObj d # rest \<and> map_of d ''fan_speed'' = Some v \<longrightarrow>
            (\<exists>w4. trace w4 = [] \<and> sessions w4 = 0 \<and>
               main_try E init_world =
                 then_do (run_configs E v (length configs) 0 configs w4)
                   (\<lambda>_ w5. (Inr (), logm AllDone w5))))"
proof -
  have acc: "config_file E \<noteq> Inaccessible"
    using assms(4) load_config_raises_iff [of E init_world] by auto
  from main_try_loaded [OF acc] obtain h cs w2 where a:
     "is_chinese_holiday E (logm CheckingHoliday init_world) =
        (Inr h, snd (is_chinese_holiday E (logm CheckingHoliday init_world)))"
     "fst (load_config E init_world) = Inr cs" "trace w2 = []" "sessions w2 = 0"
     "main_try E init_world =
       then_do (get_fan_speed_input E w2) (\<lambda>given w3.
       then_do (resolve_target E h cs given w3) (\<lambda>target w4.
       then_do (run_configs E target (length cs) 0 cs w4) (\<lambda>_ w5.
         (Inr (), logm AllDone w5))))"
    by blast
  have "fst (is_chinese_holiday E (logm CheckingHoliday init_world)) = Inr h"
    using a(1) by (metis fst_conv)
  then have h: "h = False" using assms(3) by simp
  have cs: "cs = configs" using a(2) assms(4) by simp
  have g: "get_fan_speed_input E w2 = (Inr None, w2)"
    using assms(1) by (auto simp: get_fan_speed_input_def)
  have m: "main_try E init_world =
       then_do (resolve_target E False configs None w2) (\<lambda>target w4.
       then_do (run_configs E target (length configs) 0 configs w4) (\<lambda>_ w5.
         (Inr (), logm AllDone w5)))"
    using a(5) g h cs by (simp add: then_do_def)
  show ?thesis
  proof (intro conjI impI allI)
    assume none: "configs = [] \<or> (\<exists>d rest. configs = JObj d # rest \<and> map_of d ''fan_speed'' = None)"
    have "resolve_target E False configs None w2 = (Inl (SystemExit 1), logm NoSpeed w2)"
      using none resolve_target_first_entry(1,2) [OF assms(2)] by auto
    then have "main_try E init_world = (Inl (SystemExit 1), logm NoSpeed w2)"
      using m by (simp add: then_do_def)
    then have "main E = (Inl (SystemExit 1), logm NoSpeed w2)" by (simp add: main_def)
    then show "fst (main E) = Inl (SystemExit 1)" "exit_status (fst (main E)) = 1"
      "trace (snd (main E)) = []" "sessions (snd (main E)) = 0"
      using a(3,4) by simp_all
  next
    fix d rest v
    assume some: "configs = JObj d # rest \<and> map_of d ''fan_speed'' = Some v"
    have "resolve_target E False configs None w2 = (Inr v, logm (UsingConfigSpeed v) w2)"
      using some resolve_target_first_entry(3) [OF assms(2)] by auto
    then have "main_try E init_world =
        then_do (run_configs E v (length configs) 0 configs (logm (UsingConfigSpeed v) w2))
          (\<lambda>_ w5. (Inr (), logm AllDone w5))"
      using m by (simp add: then_do_def)
    then show "\<exists>w4. trace w4 = [] \<and> sessions w4 = 0 \<and>
               main_try E init_world =
                 then_do (run_configs E v (length configs) 0 configs w4)
                   (\<lambda>_ w5. (Inr (), logm AllDone w5))"
      using a(3,4) by (intro exI [of _ "logm (UsingConfigSpeed v) w2"]) simp
  qed
qed

text \<open>
  The first entry has no \<open>fan_speed\<close> and the second has one: the process exits with
  status 1 before any host is contacted.
\<close>

theorem C4_first_entry_decides_witness:
  "fst (main (E_weekday (JList [cfg_no_speed, cfg_speed 40]))) = Inl (SystemExit 1) \<and>
   exit_status (fst (main (E_weekday (JList [cfg_no_speed, cfg_speed 40])))) = 1 \<and>
   trace (snd (main (E_weekday (JList [cfg_no_speed, cfg_speed 40])))) = [] \<and>
   sessions (snd (main (E_weekday (JList [cfg_no_speed, cfg_speed 40])))) = 0"
proof -
  let ?E = "E_weekday (JList [cfg_no_speed, cfg_speed 40])"
  have a: "argv ?E = [] \<or> (\<exists>prog. argv ?E = [prog])" by (simp add: E_weekday_def)
  have b: "weekday ?E < 5" by (simp add: E_weekday_def)
  have c: "fst (is_chinese_holiday ?E (logm CheckingHoliday init_world)) = Inr False"
    by (simp add: is_chinese_holiday_def holiday_try_def E_weekday_def api_workday_def
        raise_for_status_def json_of_def)
  have d: "fst (load_config ?E init_world) = Inr [cfg_no_speed, cfg_speed 40]"
    by (simp add: load_config_def load_config_try_def path_exists_def E_weekday_def)
  have e: "[cfg_no_speed, cfg_speed 40] = [] \<or>
     (\<exists>d rest. [cfg_no_speed, cfg_speed 40] = JObj d # rest \<and> map_of d ''fan_speed'' = None)"
    by (simp add: cfg_no_speed_def)
  from C4_first_entry_decides [OF a b c d] e show ?thesis by blast
qed

subsection \<open>The duty that is sent\<close>

text \<open>
  Claim C3 says that every duty sent was validated or clamped to 0..100. The code checks
  the range only for the command-line argument (\<open>get_fan_speed_input\<close>); a \<open>fan_speed\<close>
  read from \<open>fanSpeed.json\<close> is sent as it is. With the one host configuration
  \<open>cfg_speed 150\<close>, no argument, on a workday, \<open>main\<close> returns normally and the
  exchanges are the random tag, the login, the manual mode, the PUT for fan 0 with
  \<open>{"duty": 150}\<close>, and the status.
\<close>

theorem C3_config_speed_sent_unchecked:
  "\<not> (0 \<le> (150::int) \<and> (150::int) \<le> 100) \<and>
   fst (load_config (E_bmc (JList [cfg_speed 150])) init_world) = Inr [cfg_speed 150] \<and>
   fst (main (E_bmc (JList [cfg_speed 150]))) = Inr () \<and>
   map (\<lambda>x. (path (fst x), payload (fst x))) (trace (snd (main (E_bmc (JList [cfg_speed 150]))))) =
     [(RandomTag, NoBody),
      (SessionLogin, Form [(''encrypt_flag'', Val (JInt 0)), (''username'', Val (JStr ''admin'')),
                           (''password'', Val (JStr ''secret'')), (''login_tag'', Val (JStr ''8f3a''))]),
      (FansMode, Json (JObj [(''control_mode'', JStr ''manual'')])),
      (Fan 0, Json (JObj [(''duty'', JInt 150)])),
      (FanInfo, NoBody)]"
  by (simp add: main_def main_try_def then_do_def is_chinese_holiday_def holiday_try_def
      E_bmc_def E_weekday_def api_workday_def raise_for_status_def json_of_def
      load_config_def load_config_try_def path_exists_def get_fan_speed_input_def
      resolve_target_def is_weekend_def cfg_speed_def run_config_def host_steps_def
      FanController_init_def login_def login_try_def get_random_def log_and_reraise_def
      send_def Let_def bmc_ok_def random_reply_def login_reply_def plain_reply_def duty_reply_def
      extract_session_def strip_def is_space_def set_header_def initial_headers_def
      apply_manual_def current_speed_def set_fan_mode_def set_fan_speed_def set_one_fan_def
      get_fan_status_def logm_def init_world_def py_str_def form_content_type_def cookie_header_def)

subsection \<open>The session id\<close>

text \<open>\<open>s.split(sep)[0]\<close> is the part of \<open>s\<close> before the first separator.\<close>

lemma py_split_hd:
  "\<exists>rest. py_split sep s = takeWhile (\<lambda>c. c \<noteq> sep) s # rest"
  by (induction s) (auto split: list.splits)

lemma py_split_name:
  assumes "name = ''SESSION='' \<or> name = ''QSESSIONID=''"
  shows "\<exists>n rest. py_split CHR ''='' (name @ v) = n # takeWhile (\<lambda>c. c \<noteq> CHR ''='') v # rest"
  using assms py_split_hd [of "CHR ''=''" v] by auto

lemma scan_cookies_first:
  assumes "\<forall>p \<in> set before. \<not> startswith (strip p) ''SESSION='' \<and> \<not> startswith (strip p) ''QSESSIONID=''"
    and "strip piece = name @ v" and "name = ''SESSION='' \<or> name = ''QSESSIONID=''"
  shows "scan_cookies (before @ piece # after) = Inr (Some (takeWhile (\<lambda>c. c \<noteq> CHR ''='') v))"
  using assms(1)
proof (induction before)
  case Nil
  obtain n rest where "py_split CHR ''='' (name @ v) = n # takeWhile (\<lambda>c. c \<noteq> CHR ''='') v # rest"
    using py_split_name [OF assms(3)] by blast
  moreover have "startswith (name @ v) ''SESSION='' \<or> startswith (name @ v) ''QSESSIONID=''"
    using assms(3) by auto
  ultimately show ?case using assms(2) by (simp add: Let_def del: startswith.simps)
next
  case (Cons p ps)
  then show ?case by (simp add: Let_def del: startswith.simps)
qed

lemma login_try_post:
  assumes "get_random E c w = (Inr tag, w1)"
    and "respond E (trace w1) (login_post c tag) = Some res"
    and "\<not> (400 \<le> status_code res \<and> status_code res < 600)"
  shows "login_try E c w =
     (case extract_session res of
        Inl e \<Rightarrow> ((Inl e, set_header ''content-type'' form_content_type c),
                  w1\<lparr>trace := trace w1 @ [(login_post c tag, Some res)]\<rparr>)
      | Inr (session_id, token) \<Rightarrow>
          ((Inr (),
            set_header ''content-type'' (JStr ''application/json'')
              (set_header ''Cookie'' (cookie_header session_id)
                (set_header ''X-Csrftoken'' token
                  (set_header ''content-type'' form_content_type c)))),
           logm LoginOk (w1\<lparr>trace := trace w1 @ [(login_post c tag, Some res)]\<rparr>)))"
  using assms
  by (auto simp: login_try_def send_def Let_def set_header_def login_post_def raise_for_status_def
      split: sum.splits prod.splits)

text \<open>
  Claim C10, as the code has it. The random tag was fetched, the POST was answered by
  \<open>res\<close> with a status that \<open>raise_for_status\<close> lets pass, and \<open>piece\<close> is the first
  piece of its \<open>Set-Cookie\<close> header (split at \<open>;\<close>) that, stripped, starts with
  \<open>SESSION=\<close> or \<open>QSESSIONID=\<close>; \<open>v\<close> is what follows the name. Then the session id
  the loop extracts is the part of \<open>v\<close> before its first \<open>=\<close>. When that is empty, as
  it is for the empty \<open>v\<close>, \<open>login\<close> raises the \<open>ValueError\<close> for a missing session
  id and leaves the \<open>Cookie\<close> header as it was. When it is not empty and the body has
  a \<open>CSRFToken\<close>, \<open>login\<close> returns and the \<open>Cookie\<close> header carries exactly that
  part.
\<close>

theorem C10_session_id:
  assumes "get_random E c w = (Inr tag, w1)"
    and "respond E (trace w1) (login_post c tag) = Some res"
    and "\<not> (400 \<le> status_code res \<and> status_code res < 600)"
    and "set_cookie res = Some sc"
    and "py_split CHR '';'' sc = before @ piece # after"
    and "\<forall>p \<in> set before. \<not> startswith (strip p) ''SESSION='' \<and> \<not> startswith (strip p) ''QSESSIONID=''"
    and "strip piece = name @ v" and "name = ''SESSION='' \<or> name = ''QSESSIONID=''"
  shows "scan_cookies (py_split CHR '';'' sc) = Inr (Some (takeWhile (\<lambda>c. c \<noteq> CHR ''='') v)) \<and>
         (takeWhile (\<lambda>c. c \<noteq> CHR ''='') v = [] \<longrightarrow>
            fst (fst (login E c w)) = Inl (ValueError ''no session id'') \<and>
            map_of (headers (snd (fst (login E c w)))) ''Cookie'' = map_of (headers c) ''Cookie'') \<and>
         (\<forall>d token. takeWhile (\<lambda>c. c \<noteq> CHR ''='') v \<noteq> [] \<and> body_json res = Some (JObj d) \<and>
                    map_of d ''CSRFToken'' = Some token \<longrightarrow>
            fst (fst (login E c w)) = Inr () \<and>
            map_of (headers (snd (fst (login E c w)))) ''Cookie'' =
              Some (cookie_header (takeWhile (\<lambda>c. c \<noteq> CHR ''='') v)))"
proof -
  let ?sid = "takeWhile (\<lambda>c. c \<noteq> CHR ''='') v"
  have scan: "scan_cookies (py_split CHR '';'' sc) = Inr (Some ?sid)"
    using scan_cookies_first [OF assms(6,7,8)] assms(5) by simp
  note lt = login_try_post [OF assms(1,2,3)]
  have empty: "fst (fst (login E c w)) = Inl (ValueError ''no session id'') \<and>
            map_of (headers (snd (fst (login E c w)))) ''Cookie'' = map_of (headers c) ''Cookie''"
    if "?sid = []"
  proof -
    have "extract_session res = Inl (ValueError ''no session id'')"
      using scan that assms(4) by (simp add: extract_session_def)
    then show ?thesis
      using lt by (simp add: login_def set_header_def update_conv')
  qed
  have full: "fst (fst (login E c w)) = Inr () \<and>
            map_of (headers (snd (fst (login E c w)))) ''Cookie'' = Some (cookie_header ?sid)"
    if "?sid \<noteq> []" "body_json res = Some (JObj d)" "map_of d ''CSRFToken'' = Some token"
    for d token
  proof -
    have "extract_session res = Inr (?sid, token)"
      using scan that assms(4) by (simp add: extract_session_def json_of_def)
    then show ?thesis
      using lt by (simp add: login_def set_header_def update_conv')
  qed
  show ?thesis using scan empty full by blast
qed

text \<open>
  The header \<open>lang=zh-cn; QSESSIONID=; path=/\<close>: the session cookie has the empty value
  and \<open>login\<close> raises.
\<close>

theorem C10_session_id_witness:
  "fst (fst (login E_empty_cookie c_two init_world)) = Inl (ValueError ''no session id'') \<and>
   map_of (headers (snd (fst (login E_empty_cookie c_two init_world)))) ''Cookie'' = None"
proof -
  have a: "get_random E_empty_cookie c_two init_world =
             (Inr (JStr ''8f3a''),
              init_world\<lparr>trace := [(\<lparr>via = 0, meth = GET, to_host = JStr ''10.0.0.1'', path = RandomTag,
                                        hdrs = initial_headers, payload = NoBody\<rparr>, Some random_reply)]\<rparr>)"
    by (simp add: get_random_def log_and_reraise_def then_do_def send_def Let_def E_empty_cookie_def
        E_sat_def c_two_def random_reply_def raise_for_status_def json_of_def init_world_def)
  let ?res = "\<lparr>status_code = 200, set_cookie = Some ''lang=zh-cn; QSESSIONID=; path=/'',
              body_json = Some (JObj [(''CSRFToken'', JStr ''t1'')])\<rparr>"
  have b: "respond E_empty_cookie
             (trace (init_world\<lparr>trace := [(\<lparr>via = 0, meth = GET, to_host = JStr ''10.0.0.1'', path = RandomTag,
                                        hdrs = initial_headers, payload = NoBody\<rparr>, Some random_reply)]\<rparr>))
             (login_post c_two (JStr ''8f3a'')) = Some ?res"
    by (simp add: E_empty_cookie_def E_sat_def login_post_def)
  have c: "\<not> (400 \<le> status_code ?res \<and> status_code ?res < 600)" by simp
  have d: "set_cookie ?res = Some ''lang=zh-cn; QSESSIONID=; path=/''" by simp
  have e: "py_split CHR '';'' ''lang=zh-cn; QSESSIONID=; path=/'' = [''lang=zh-cn''] @ '' QSESSIONID='' # ['' path=/'']"
    by simp
  have f: "\<forall>p \<in> set [''lang=zh-cn'']. \<not> startswith (strip p) ''SESSION='' \<and> \<not> startswith (strip p) ''QSESSIONID=''"
    by (simp add: strip_def is_space_def)
  have g: "strip '' QSESSIONID='' = ''QSESSIONID='' @ []" by (simp add: strip_def is_space_def)
  have h: "''QSESSIONID='' = ''SESSION='' \<or> ''QSESSIONID='' = ''QSESSIONID=''" by simp
  from C10_session_id [OF a b c d e f g h]
  show ?thesis by (simp add: c_two_def initial_headers_def)
qed

text \<open>
  Claim C10 as stated fails: the header \<open>SESSION=abc; QSESSIONID=\<close> contains a
  \<open>QSESSIONID=\<close> cookie whose value is the empty string, yet the loop stops at
  \<open>SESSION=abc\<close>, \<open>login\<close> returns, and the session id is \<open>abc\<close>.
\<close>

theorem C10_two_cookies_counterexample:
  "py_split CHR '';'' ''SESSION=abc; QSESSIONID='' = [''SESSION=abc'', '' QSESSIONID=''] \<and>
   strip '' QSESSIONID='' = ''QSESSIONID='' \<and>
   fst (fst (login E_two_cookies c_two init_world)) = Inr () \<and>
   map_of (headers (snd (fst (login E_two_cookies c_two init_world)))) ''Cookie'' =
     Some (cookie_header ''abc'')"
  by (simp add: login_def login_try_def get_random_def log_and_reraise_def then_do_def send_def
      Let_def E_two_cookies_def E_sat_def c_two_def random_reply_def raise_for_status_def json_of_def
      init_world_def extract_session_def strip_def is_space_def set_header_def initial_headers_def
      py_str_def logm_def update_conv')

subsection \<open>Failures of one host\<close>






























subsection \<open>Session artifacts stay with their host\<close>


























lemma trace_main [simp]: "trace (snd (main E)) = trace (snd (main_try E init_world))"
  by (simp add: main_def split: prod.splits sum.splits)



end
